theory Spec2Isabelle
  imports Main "HOL-Library.Multiset"
begin

section \<open>The ledger server (package main)\<close>

text \<open>
  The hash-chained ledger is the Go program that accompanies the admin page: the types
  \<open>LedgerEntry\<close> and \<open>NewEntryPayload\<close>, and the functions \<open>calculateHash\<close>,
  \<open>getLastHash\<close>, \<open>createEntry\<close>, \<open>addEntryHandler\<close> and \<open>verifyLedgerHandler\<close>.
  Go strings are byte sequences, so they are \<open>string\<close> (lists of 8-bit characters) and
  Go's \<open>+\<close> on strings is \<open>@\<close>. \<open>Timestamp\<close> is an \<open>int64\<close>; it is an \<open>int\<close> here and
  the one place where its width matters, the conversion \<open>rune(timestamp)\<close>, writes the
  truncation out.
\<close>

subsection \<open>Types\<close>

record LedgerEntry =
  ID :: string
  SurveyNumber :: string
  PropertyNumber :: string
  OwnerID :: string
  LandType :: string
  Action :: string
  Details :: string
  Timestamp :: int
  PrevHash :: string
  Hash :: string

text \<open>The fields of \<open>NewEntryPayload\<close> carry the prefix \<open>payload\<close>: a record field is a
  constant, and \<open>LedgerEntry\<close> has the same six names.\<close>

record NewEntryPayload =
  payloadSurveyNumber :: string
  payloadPropertyNumber :: string
  payloadOwnerID :: string
  payloadLandType :: string
  payloadAction :: string
  payloadDetails :: string

subsection \<open>What the program reads from outside\<close>

text \<open>
  A Go \<open>error\<close> value, with its message. One call of a handler reads the clock
  (\<open>time.Now().Unix()\<close>), draws an identifier (\<open>uuid.New().String()\<close>) and performs at
  most one \<open>Find\<close>, one \<open>cur.All\<close> and one \<open>InsertOne\<close> on the collection; \<open>env\<close> holds
  the clock reading, the identifier and, for each of the three driver calls, the error
  the driver reports (\<open>None\<close> for \<open>err == nil\<close>).
\<close>

datatype error = Error string

record env =
  now :: int
  newUUID :: string
  findErr :: "error option"
  allErr :: "error option"
  insertErr :: "error option"

text \<open>
  The collection \<open>ledgerCollection\<close> is the list of its documents in the order in which
  a \<open>Find\<close> returns them. \<open>Find\<close> with the filter \<open>bson.M{field: v}\<close> selects the
  documents whose \<open>field\<close> is \<open>v\<close>; \<open>cur.All\<close> decodes them; \<open>InsertOne\<close> adds a document at
  the end (a collection from which nothing is deleted is read in the order of insertion,
  though MongoDB promises no order for a \<open>Find\<close> without a sort).
\<close>

definition Find ::
  "env \<Rightarrow> LedgerEntry list \<Rightarrow> (LedgerEntry \<Rightarrow> string) \<Rightarrow> string \<Rightarrow> error + LedgerEntry list" where
  "Find ev coll field v =
     (case findErr ev of
        Some err \<Rightarrow> Inl err
      | None \<Rightarrow> Inr (filter (\<lambda>d. field d = v) coll))"

definition cursorAll :: "env \<Rightarrow> LedgerEntry list \<Rightarrow> error + LedgerEntry list" where
  "cursorAll ev cur =
     (case allErr ev of
        Some err \<Rightarrow> Inl err
      | None \<Rightarrow> Inr cur)"

definition InsertOne ::
  "env \<Rightarrow> LedgerEntry list \<Rightarrow> LedgerEntry \<Rightarrow> LedgerEntry list \<times> error option" where
  "InsertOne ev coll entry =
     (case insertErr ev of
        Some err \<Rightarrow> (coll, Some err)
      | None \<Rightarrow> (coll @ [entry], None))"

subsection \<open>Library functions of Go\<close>

text \<open>
  \<open>hex.EncodeToString\<close>: two characters of \<open>0123456789abcdef\<close> for each byte, the high
  half first.
\<close>

definition hextable :: string where
  "hextable = ''0123456789abcdef''"

fun EncodeToString :: "string \<Rightarrow> string" where
  "EncodeToString [] = []"
| "EncodeToString (b # bs) =
     hextable ! (of_char b div 16) # hextable ! (of_char b mod 16) # EncodeToString bs"

text \<open>
  \<open>rune(timestamp)\<close> converts an \<open>int64\<close> to an \<open>int32\<close>: the low 32 bits, read as a
  signed number.
\<close>

definition rune :: "int \<Rightarrow> int" where
  "rune t = (t + 2147483648) mod 4294967296 - 2147483648"

text \<open>
  \<open>string(r)\<close> for a rune \<open>r\<close> is the UTF-8 encoding of the code point \<open>r\<close>, and the
  encoding of U+FFFD (the bytes EF BF BD) when \<open>r\<close> is not a valid code point: negative,
  above U+10FFFF, or a surrogate (U+D800 to U+DFFF).
\<close>

definition string_of_rune :: "int \<Rightarrow> string" where
  "string_of_rune r =
     (if 0 \<le> r \<and> r \<le> 127 then [char_of r]
      else if 0 \<le> r \<and> r \<le> 2047 then
        [char_of (192 + r div 64), char_of (128 + r mod 64)]
      else if r < 0 \<or> 1114111 < r \<or> (55296 \<le> r \<and> r \<le> 57343) then
        [CHR 0xEF, CHR 0xBF, CHR 0xBD]
      else if r \<le> 65535 then
        [char_of (224 + r div 4096), char_of (128 + (r div 64) mod 64),
         char_of (128 + r mod 64)]
      else
        [char_of (240 + r div 262144), char_of (128 + (r div 4096) mod 64),
         char_of (128 + (r div 64) mod 64), char_of (128 + r mod 64)])"

text \<open>
  \<open>sort.Slice(entries, func(i, j) { return entries[i].Timestamp < entries[j].Timestamp })\<close>
  orders the slice by \<open>Timestamp\<close>, ascending; the comparison looks at no other field.
  It is modelled by the insertion sort \<open>sort_key\<close>, which keeps entries of equal
  \<open>Timestamp\<close> in the order they had. Go's \<open>sort.Slice\<close> does the same on the slices it
  sorts by insertion (up to twelve entries) and on a slice that is in order already; its
  documentation promises no order among equal entries otherwise.
\<close>

definition sortSlice :: "LedgerEntry list \<Rightarrow> LedgerEntry list" where
  "sortSlice entries = sort_key Timestamp entries"

subsection \<open>The hash\<close>

text \<open>
  \<open>sha256.Sum256\<close> is the parameter \<open>sha\<close>, from the bytes of the message to the bytes
  of the digest: every theorem below holds for each function in its place.
\<close>

definition calculateHash :: "(string \<Rightarrow> string) \<Rightarrow> string \<Rightarrow> string" where
  "calculateHash sha data = EncodeToString (sha data)"

subsection \<open>Appending\<close>

definition getLastHash :: "env \<Rightarrow> LedgerEntry list \<Rightarrow> string \<Rightarrow> string" where
  "getLastHash ev coll propertyNumber =
     (case Find ev coll PropertyNumber propertyNumber of
        Inl err \<Rightarrow> ''genesis''
      | Inr cur \<Rightarrow>
          (case cursorAll ev cur of
             Inl err \<Rightarrow> ''genesis''
           | Inr entries \<Rightarrow>
               if length entries = 0 then ''genesis''
               else Hash (sortSlice entries ! (length entries - 1))))"

text \<open>
  \<open>createEntry\<close> up to the construction of \<open>entry\<close> (it reads the collection through
  \<open>getLastHash\<close> and writes nothing), and \<open>createEntry\<close> itself, which inserts the entry
  and returns it with the error of \<open>InsertOne\<close>. The collection after the call is the
  first component of the result.
\<close>

definition newEntry ::
  "(string \<Rightarrow> string) \<Rightarrow> env \<Rightarrow> LedgerEntry list \<Rightarrow> NewEntryPayload \<Rightarrow> LedgerEntry" where
  "newEntry sha ev coll payload =
     (let prevHash = getLastHash ev coll (payloadPropertyNumber payload);
          timestamp = now ev;
          id = newUUID ev;
          raw = id @ payloadSurveyNumber payload @ payloadPropertyNumber payload
                @ payloadOwnerID payload @ payloadLandType payload @ payloadAction payload
                @ payloadDetails payload @ string_of_rune (rune timestamp);
          hash = calculateHash sha (raw @ prevHash)
      in \<lparr> ID = id,
           SurveyNumber = payloadSurveyNumber payload,
           PropertyNumber = payloadPropertyNumber payload,
           OwnerID = payloadOwnerID payload,
           LandType = payloadLandType payload,
           Action = payloadAction payload,
           Details = payloadDetails payload,
           Timestamp = timestamp,
           PrevHash = prevHash,
           Hash = hash \<rparr>)"

definition createEntry ::
  "(string \<Rightarrow> string) \<Rightarrow> env \<Rightarrow> LedgerEntry list \<Rightarrow> NewEntryPayload
     \<Rightarrow> LedgerEntry list \<times> LedgerEntry \<times> error option" where
  "createEntry sha ev coll payload =
     (let entry = newEntry sha ev coll payload;
          (coll', err) = InsertOne ev coll entry
      in (coll', entry, err))"

subsection \<open>Responses\<close>

text \<open>A response is a status code and a JSON object (\<open>gin.H\<close>), a list of keys with
  their values.\<close>

datatype json = JString string | JBool bool | JEntry LedgerEntry

record response =
  status :: nat
  body :: "(string \<times> json) list"

text \<open>
  \<open>c.BindJSON(&payload)\<close> decodes the request body; the handler receives either its
  error or the decoded payload. \<open>NewEntryPayload\<close> has no \<open>binding\<close> tag, so a body that
  decodes is accepted whatever its fields hold.
\<close>

definition addEntryHandler ::
  "(string \<Rightarrow> string) \<Rightarrow> env \<Rightarrow> LedgerEntry list \<Rightarrow> error + NewEntryPayload
     \<Rightarrow> LedgerEntry list \<times> response" where
  "addEntryHandler sha ev coll bound =
     (case bound of
        Inl err \<Rightarrow>
          (coll, \<lparr> status = 400, body = [(''error'', JString ''Invalid input'')] \<rparr>)
      | Inr payload \<Rightarrow>
          (case createEntry sha ev coll payload of
             (coll', entry, Some (Error msg)) \<Rightarrow>
               (coll', \<lparr> status = 500, body = [(''error'', JString msg)] \<rparr>)
           | (coll', entry, None) \<Rightarrow>
               (coll', \<lparr> status = 200,
                         body = [(''status'', JString ''success''), (''entry'', JEntry entry)] \<rparr>)))"

subsection \<open>Verifying\<close>

text \<open>
  The loop of \<open>verifyLedgerHandler\<close> over the sorted chain, from \<open>i = 1\<close>: \<open>prev\<close> and
  \<open>current\<close> (the source's \<open>curr\<close>) are \<open>chain[i-1]\<close> and \<open>chain[i]\<close>, the first two
  entries of what is left of the chain. The result is the value of \<open>valid\<close> when the
  loop ends.
\<close>

fun verifyLoop :: "(string \<Rightarrow> string) \<Rightarrow> LedgerEntry list \<Rightarrow> bool" where
  "verifyLoop sha (prev # current # rest) =
     (let expected = calculateHash sha
            (ID current @ SurveyNumber current @ PropertyNumber current
             @ OwnerID current @ LandType current @ Action current @ Details current
             @ string_of_rune (rune (Timestamp current)) @ PrevHash current)
      in if PrevHash current \<noteq> Hash prev \<or> Hash current \<noteq> expected then False
         else verifyLoop sha (current # rest))"
| "verifyLoop sha chain = True"

definition verifyLedgerHandler ::
  "(string \<Rightarrow> string) \<Rightarrow> env \<Rightarrow> LedgerEntry list \<Rightarrow> string \<Rightarrow> response" where
  "verifyLedgerHandler sha ev coll landID =
     (case Find ev coll SurveyNumber landID of
        Inl (Error msg) \<Rightarrow> \<lparr> status = 500, body = [(''error'', JString msg)] \<rparr>
      | Inr cur \<Rightarrow>
          (case cursorAll ev cur of
             Inl (Error msg) \<Rightarrow> \<lparr> status = 500, body = [(''error'', JString msg)] \<rparr>
           | Inr chain \<Rightarrow>
               (let valid = verifyLoop sha (sortSlice chain)
                in \<lparr> status = 200,
                     body = [(''land_id'', JString landID), (''valid'', JBool valid)] \<rparr>)))"

subsection \<open>The bytes that are hashed\<close>

text \<open>
  The argument of \<open>calculateHash\<close> in \<open>verifyLedgerHandler\<close>, as a function of the entry.
  \<open>createEntry\<close> hashes \<open>raw + prevHash\<close>, the same bytes for the entry it builds
  (\<open>newEntry_Hash\<close> below).
\<close>

definition hashInput :: "LedgerEntry \<Rightarrow> string" where
  "hashInput e =
     ID e @ SurveyNumber e @ PropertyNumber e @ OwnerID e @ LandType e @ Action e
     @ Details e @ string_of_rune (rune (Timestamp e)) @ PrevHash e"

subsection \<open>Sequences of calls\<close>






subsection \<open>Example data\<close>

text \<open>
  Three calls a minute apart, with identifiers of the form \<open>uuid.New().String()\<close> gives
  and payloads as the admin form sends them. In the examples the digest function is
  \<open>\<lambda>data. data\<close>, which never maps two messages to one digest.
\<close>

definition firstCall :: env where
  "firstCall = \<lparr> now = 1700000000, newUUID = ''6f1c2a9e-0b57-4c1d-9a3e-2d4b8f6a7c01'',
       findErr = None, allErr = None, insertErr = None \<rparr>"

definition secondCall :: env where
  "secondCall = \<lparr> now = 1700000060, newUUID = ''b2d47e10-93aa-4f6b-8c25-71e0c9d3a5f2'',
       findErr = None, allErr = None, insertErr = None \<rparr>"

definition award :: NewEntryPayload where
  "award = \<lparr> payloadSurveyNumber = ''SY-001'', payloadPropertyNumber = ''PR-001'',
       payloadOwnerID = ''OWN-001'', payloadLandType = ''Agricultural'',
       payloadAction = ''AwardDeclared'', payloadDetails = ''award'' \<rparr>"

definition transfer :: NewEntryPayload where
  "transfer = \<lparr> payloadSurveyNumber = ''SY-001'', payloadPropertyNumber = ''PR-001'',
       payloadOwnerID = ''OWN-002'', payloadLandType = ''Agricultural'',
       payloadAction = ''OwnershipUpdated'', payloadDetails = ''sale'' \<rparr>"

definition thirdCall :: env where
  "thirdCall = \<lparr> now = 1700000120, newUUID = ''0a9c35d7-4e21-4b8f-a6d0-5c7e1f2b3a94'',
       findErr = None, allErr = None, insertErr = None \<rparr>"


text \<open>The entry of the first call on an empty collection, and the entry of the second
  call on the collection that holds the first.\<close>

definition awardEntry :: LedgerEntry where
  "awardEntry = newEntry (\<lambda>data. data) firstCall [] award"

definition transferEntry :: LedgerEntry where
  "transferEntry = newEntry (\<lambda>data. data) secondCall [awardEntry] transfer"

text \<open>A second call in the same second as the first, and its entry.\<close>

definition hastyCall :: env where
  "hastyCall = \<lparr> now = 1700000000, newUUID = ''b2d47e10-93aa-4f6b-8c25-71e0c9d3a5f2'',
       findErr = None, allErr = None, insertErr = None \<rparr>"

definition hastyEntry :: LedgerEntry where
  "hastyEntry = newEntry (\<lambda>data. data) hastyCall [awardEntry] transfer"

text \<open>A payload whose fields are all empty; a payload for the property of the first call
  under another survey number, and the entry of the second call when it carries this
  payload.\<close>

definition blank :: NewEntryPayload where
  "blank = \<lparr> payloadSurveyNumber = '''', payloadPropertyNumber = '''',
       payloadOwnerID = '''', payloadLandType = '''',
       payloadAction = '''', payloadDetails = '''' \<rparr>"

definition resurvey :: NewEntryPayload where
  "resurvey = \<lparr> payloadSurveyNumber = ''SY-002'', payloadPropertyNumber = ''PR-001'',
       payloadOwnerID = ''OWN-002'', payloadLandType = ''Agricultural'',
       payloadAction = ''OwnershipUpdated'', payloadDetails = ''resurvey'' \<rparr>"

definition resurveyEntry :: LedgerEntry where
  "resurveyEntry = newEntry (\<lambda>data. data) secondCall [awardEntry] resurvey"

text \<open>A payload for another property under the survey number of the first call, and the
  entry of the second call when it carries this payload.\<close>

definition neighbour :: NewEntryPayload where
  "neighbour = \<lparr> payloadSurveyNumber = ''SY-001'', payloadPropertyNumber = ''PR-002'',
       payloadOwnerID = ''OWN-003'', payloadLandType = ''Agricultural'',
       payloadAction = ''AwardDeclared'', payloadDetails = ''award'' \<rparr>"

definition neighbourEntry :: LedgerEntry where
  "neighbourEntry = newEntry (\<lambda>data. data) secondCall [awardEntry] neighbour"

section \<open>Lemmas about the model\<close>


subsection \<open>The digest\<close>



lemma EncodeToString_length: "length (EncodeToString xs) = 2 * length xs"
  by (induction xs) simp_all

lemma calculateHash_not_genesis: "calculateHash sha data \<noteq> ''genesis''"
proof
  assume "calculateHash sha data = ''genesis''"
  then have "length (EncodeToString (sha data)) = 7" by (simp add: calculateHash_def)
  then show False by (simp add: EncodeToString_length) presburger
qed




subsection \<open>Entries built by \<open>createEntry\<close>\<close>

lemma newEntry_fields:
  "ID (newEntry sha ev coll payload) = newUUID ev"
  "SurveyNumber (newEntry sha ev coll payload) = payloadSurveyNumber payload"
  "PropertyNumber (newEntry sha ev coll payload) = payloadPropertyNumber payload"
  "OwnerID (newEntry sha ev coll payload) = payloadOwnerID payload"
  "LandType (newEntry sha ev coll payload) = payloadLandType payload"
  "Action (newEntry sha ev coll payload) = payloadAction payload"
  "Details (newEntry sha ev coll payload) = payloadDetails payload"
  "Timestamp (newEntry sha ev coll payload) = now ev"
  "PrevHash (newEntry sha ev coll payload) = getLastHash ev coll (payloadPropertyNumber payload)"
  by (simp_all add: newEntry_def Let_def)

lemma newEntry_Hash:
  "Hash (newEntry sha ev coll payload) = calculateHash sha (hashInput (newEntry sha ev coll payload))"
  by (simp add: newEntry_def hashInput_def Let_def)

lemma getLastHash_empty:
  "\<forall>d\<in>set coll. PropertyNumber d \<noteq> p \<Longrightarrow> getLastHash ev coll p = ''genesis''"
  by (simp add: getLastHash_def Find_def cursorAll_def filter_empty_conv[THEN iffD2] split: option.splits)

lemma getLastHash_error:
  "findErr ev \<noteq> None \<or> allErr ev \<noteq> None \<Longrightarrow> getLastHash ev coll p = ''genesis''"
  by (auto simp: getLastHash_def Find_def cursorAll_def split: option.splits)

lemma getLastHash_nil: "getLastHash ev [] p = ''genesis''"
  by (simp add: getLastHash_empty)

lemma addEntryHandler_inserts:
  "insertErr ev = None \<Longrightarrow>
   addEntryHandler sha ev coll (Inr payload) =
     (coll @ [newEntry sha ev coll payload],
      \<lparr> status = 200,
        body = [(''status'', JString ''success''),
                (''entry'', JEntry (newEntry sha ev coll payload))] \<rparr>)"
  by (simp add: addEntryHandler_def createEntry_def InsertOne_def Let_def)

subsection \<open>Sorting and the tail of a chain\<close>




lemma sortSlice_sorted: "sorted (map Timestamp chain) \<Longrightarrow> sortSlice chain = chain"
  by (simp add: sortSlice_def sort_key_id_if_sorted)

lemma getLastHash_tail:
  assumes "findErr ev = None" "allErr ev = None"
    and "filter (\<lambda>d. PropertyNumber d = p) coll = chain" "chain \<noteq> []"
    and "sorted (map Timestamp chain)"
  shows "getLastHash ev coll p = Hash (last chain)"
  using assms
  by (simp add: getLastHash_def Find_def cursorAll_def sortSlice_sorted last_conv_nth)

lemma filter_same_key:
  "distinct (map f xs) \<Longrightarrow> k \<in> set xs \<Longrightarrow> filter (\<lambda>x. f k = f x) xs = [k]"
proof (induction xs)
  case Nil
  then show ?case by simp
next
  case (Cons x xs)
  show ?case
  proof (cases "x = k")
    case True
    with Cons.prems have "\<forall>y\<in>set xs. f k \<noteq> f y" by auto
    then have "filter (\<lambda>x. f k = f x) xs = []" by (simp add: filter_empty_conv)
    with True show ?thesis by simp
  next
    case False
    with Cons.prems have k: "k \<in> set xs" by auto
    from Cons.prems(1) have "f x \<notin> f ` set xs" by simp
    with k have "f k \<noteq> f x" by (metis imageI)
    with k Cons show ?thesis by simp
  qed
qed

lemma sort_key_order_free:
  assumes "mset xs = mset ys" and "distinct (map f xs)"
  shows "sort_key f xs = sort_key f ys"
proof (rule properties_for_sort_key)
  show "mset (sort_key f ys) = mset xs" using assms(1) by simp
  show "sorted (map f (sort_key f ys))" by simp
  fix k assume "k \<in> set (sort_key f ys)"
  then have k: "k \<in> set ys" by simp
  with assms(1) have kx: "k \<in> set xs" by (metis mset_eq_setD)
  from assms have "distinct (map f ys)"
    by (metis distinct_map mset_eq_imp_distinct_iff mset_eq_setD)
  then have "distinct (map f (sort_key f ys))"
    by (simp add: distinct_map)
  with \<open>k \<in> set (sort_key f ys)\<close> have "filter (\<lambda>x. f k = f x) (sort_key f ys) = [k]"
    by (simp only: filter_same_key)
  moreover from assms(2) kx have "filter (\<lambda>x. f k = f x) xs = [k]"
    by (simp only: filter_same_key)
  ultimately show "filter (\<lambda>x. f k = f x) (sort_key f ys) = filter (\<lambda>x. f k = f x) xs"
    by simp
qed


lemma filter_eq_iff: "(filter P xs = filter Q xs) = (\<forall>x\<in>set xs. P x = Q x)"
proof
  assume eq: "filter P xs = filter Q xs"
  show "\<forall>x\<in>set xs. P x = Q x"
  proof
    fix x assume "x \<in> set xs"
    then have "x \<in> set (filter P xs) \<longleftrightarrow> P x" "x \<in> set (filter Q xs) \<longleftrightarrow> Q x" by simp_all
    with eq show "P x = Q x" by simp
  qed
next
  assume "\<forall>x\<in>set xs. P x = Q x"
  then show "filter P xs = filter Q xs" by (intro filter_cong) simp_all
qed

subsection \<open>The verification loop and its handler\<close>

lemma verifyLoop_Cons2:
  "verifyLoop sha (a # b # rest) =
     (PrevHash b = Hash a \<and> Hash b = calculateHash sha (hashInput b) \<and> verifyLoop sha (b # rest))"
  by (auto simp: hashInput_def)




lemma verifyLedgerHandler_ok:
  "findErr ev = None \<Longrightarrow> allErr ev = None \<Longrightarrow>
   verifyLedgerHandler sha ev coll landID =
     \<lparr> status = 200,
       body = [(''land_id'', JString landID),
               (''valid'', JBool (verifyLoop sha
                  (sortSlice (filter (\<lambda>d. SurveyNumber d = landID) coll))))] \<rparr>"
  by (simp add: verifyLedgerHandler_def Find_def cursorAll_def)

lemma verifyLedgerHandler_findErr:
  "findErr ev = Some (Error msg) \<Longrightarrow>
   verifyLedgerHandler sha ev coll landID = \<lparr> status = 500, body = [(''error'', JString msg)] \<rparr>"
  by (simp add: verifyLedgerHandler_def Find_def)

lemma verifyLedgerHandler_allErr:
  "findErr ev = None \<Longrightarrow> allErr ev = Some (Error msg) \<Longrightarrow>
   verifyLedgerHandler sha ev coll landID = \<lparr> status = 500, body = [(''error'', JString msg)] \<rparr>"
  by (simp add: verifyLedgerHandler_def Find_def cursorAll_def)

lemma verifyLedgerHandler_cong:
  assumes "verifyLoop sha (sortSlice (filter (\<lambda>d. SurveyNumber d = landID) coll))
      = verifyLoop sha (sortSlice (filter (\<lambda>d. SurveyNumber d = landID) coll'))"
  shows "verifyLedgerHandler sha ev coll landID = verifyLedgerHandler sha ev coll' landID"
proof (cases "findErr ev")
  case None
  show ?thesis
  proof (cases "allErr ev")
    case None
    with \<open>findErr ev = None\<close> assms show ?thesis
      by (simp only: verifyLedgerHandler_ok)
  next
    case (Some err)
    with \<open>findErr ev = None\<close> show ?thesis
      by (cases err) (simp only: verifyLedgerHandler_allErr)
  qed
next
  case (Some err)
  then show ?thesis
    by (cases err) (simp only: verifyLedgerHandler_findErr)
qed




subsection \<open>Calls served one after another\<close>




subsection \<open>Schedules\<close>








subsection \<open>The example entries\<close>

lemma awardEntry_fields:
  "ID awardEntry = ''6f1c2a9e-0b57-4c1d-9a3e-2d4b8f6a7c01''"
  "SurveyNumber awardEntry = ''SY-001''"
  "PropertyNumber awardEntry = ''PR-001''"
  "OwnerID awardEntry = ''OWN-001''"
  "LandType awardEntry = ''Agricultural''"
  "Action awardEntry = ''AwardDeclared''"
  "Details awardEntry = ''award''"
  "Timestamp awardEntry = 1700000000"
  "PrevHash awardEntry = ''genesis''"
  "Hash awardEntry = calculateHash (\<lambda>data. data) (hashInput awardEntry)"
  unfolding awardEntry_def
  by (simp_all only: newEntry_fields newEntry_Hash [symmetric] getLastHash_nil)
     (simp_all add: firstCall_def award_def)

lemma getLastHash_awardEntry: "getLastHash secondCall [awardEntry] ''PR-001'' = Hash awardEntry"
proof -
  have "getLastHash secondCall [awardEntry] ''PR-001'' = Hash (last [awardEntry])"
    by (rule getLastHash_tail) (simp_all add: awardEntry_fields secondCall_def)
  then show ?thesis by simp
qed

lemma transferEntry_fields:
  "ID transferEntry = ''b2d47e10-93aa-4f6b-8c25-71e0c9d3a5f2''"
  "SurveyNumber transferEntry = ''SY-001''"
  "PropertyNumber transferEntry = ''PR-001''"
  "OwnerID transferEntry = ''OWN-002''"
  "LandType transferEntry = ''Agricultural''"
  "Action transferEntry = ''OwnershipUpdated''"
  "Details transferEntry = ''sale''"
  "Timestamp transferEntry = 1700000060"
  "Hash transferEntry = calculateHash (\<lambda>data. data) (hashInput transferEntry)"
  unfolding transferEntry_def
  by (simp_all only: newEntry_fields newEntry_Hash [symmetric])
     (simp_all add: secondCall_def transfer_def)


lemma getLastHash_awardEntry_hasty:
  "getLastHash hastyCall [awardEntry] ''PR-001'' = Hash awardEntry"
proof -
  have "getLastHash hastyCall [awardEntry] ''PR-001'' = Hash (last [awardEntry])"
    by (rule getLastHash_tail) (simp_all add: awardEntry_fields hastyCall_def)
  then show ?thesis by simp
qed

lemma hastyEntry_fields:
  "SurveyNumber hastyEntry = ''SY-001''"
  "Timestamp hastyEntry = 1700000000"
  "Hash hastyEntry = calculateHash (\<lambda>data. data) (hashInput hastyEntry)"
  unfolding hastyEntry_def
  by (simp_all only: newEntry_fields newEntry_Hash [symmetric])
     (simp_all add: hastyCall_def transfer_def)

lemma hastyEntry_PrevHash: "PrevHash hastyEntry = Hash awardEntry"
  unfolding hastyEntry_def
  by (simp add: newEntry_fields transfer_def getLastHash_awardEntry_hasty)

lemma resurveyEntry_fields:
  "SurveyNumber resurveyEntry = ''SY-002''"
  "PropertyNumber resurveyEntry = ''PR-001''"
  "Timestamp resurveyEntry = 1700000060"
  "PrevHash resurveyEntry = Hash awardEntry"
  unfolding resurveyEntry_def
  by (simp_all add: newEntry_fields resurvey_def getLastHash_awardEntry)
     (simp add: secondCall_def)

lemma neighbourEntry_fields:
  "SurveyNumber neighbourEntry = ''SY-001''"
  "PropertyNumber neighbourEntry = ''PR-002''"
  "Timestamp neighbourEntry = 1700000060"
  "PrevHash neighbourEntry = ''genesis''"
  unfolding neighbourEntry_def
  by (simp_all add: newEntry_fields neighbour_def getLastHash_empty awardEntry_fields)
     (simp add: secondCall_def)

section \<open>The claims\<close>

text \<open>
  C1 (as amended). Append and verify do not use one chain key. \<open>getLastHash\<close> resolves
  the tail among the entries whose \<open>PropertyNumber\<close> is the payload's property number,
  and nothing else of the collection matters to it; \<open>verifyLedgerHandler\<close> fetches the
  entries whose \<open>SurveyNumber\<close> is the \<open>land_id\<close> of the request, and nothing else
  matters to it. The group verify fetches for \<open>landID\<close> is the chain append extends for
  the property number \<open>p\<close> exactly when every entry of the collection has the survey
  number \<open>landID\<close> if and only if it has the property number \<open>p\<close>.
\<close>

theorem append_and_verify_groups:
  "(filter (\<lambda>d. PropertyNumber d = p) coll = filter (\<lambda>d. PropertyNumber d = p) coll'
      \<longrightarrow> getLastHash ev coll p = getLastHash ev coll' p)
   \<and> (filter (\<lambda>d. SurveyNumber d = landID) coll = filter (\<lambda>d. SurveyNumber d = landID) coll'
      \<longrightarrow> verifyLedgerHandler sha ev coll landID = verifyLedgerHandler sha ev coll' landID)
   \<and> (findErr ev = None
      \<longrightarrow> (Find ev coll SurveyNumber landID = Find ev coll PropertyNumber p)
          = (\<forall>d\<in>set coll. (SurveyNumber d = landID) = (PropertyNumber d = p)))"
proof -
  have "getLastHash ev coll p = getLastHash ev coll' p"
    if "filter (\<lambda>d. PropertyNumber d = p) coll = filter (\<lambda>d. PropertyNumber d = p) coll'"
    unfolding getLastHash_def Find_def that by (rule refl)
  moreover have "verifyLedgerHandler sha ev coll landID = verifyLedgerHandler sha ev coll' landID"
    if "filter (\<lambda>d. SurveyNumber d = landID) coll = filter (\<lambda>d. SurveyNumber d = landID) coll'"
    unfolding verifyLedgerHandler_def Find_def that by (rule refl)
  moreover have "(Find ev coll SurveyNumber landID = Find ev coll PropertyNumber p)
          = (\<forall>d\<in>set coll. (SurveyNumber d = landID) = (PropertyNumber d = p))"
    if "findErr ev = None"
    using that by (simp add: Find_def filter_eq_iff)
  ultimately show ?thesis by blast
qed

theorem append_and_verify_groups_witness:
  "getLastHash thirdCall [awardEntry, neighbourEntry] ''PR-001''
     = getLastHash thirdCall [awardEntry] ''PR-001''
   \<and> verifyLedgerHandler (\<lambda>data. data) thirdCall [awardEntry, resurveyEntry] ''SY-001''
     = verifyLedgerHandler (\<lambda>data. data) thirdCall [awardEntry] ''SY-001''
   \<and> Find thirdCall [awardEntry, transferEntry] SurveyNumber ''SY-001''
     = Find thirdCall [awardEntry, transferEntry] PropertyNumber ''PR-001''"
proof -
  have 1: "filter (\<lambda>d. PropertyNumber d = ''PR-001'') [awardEntry, neighbourEntry]
      = filter (\<lambda>d. PropertyNumber d = ''PR-001'') [awardEntry]"
    by (simp add: neighbourEntry_fields)
  have 2: "filter (\<lambda>d. SurveyNumber d = ''SY-001'') [awardEntry, resurveyEntry]
      = filter (\<lambda>d. SurveyNumber d = ''SY-001'') [awardEntry]"
    by (simp add: resurveyEntry_fields)
  have 3: "findErr thirdCall = None" by (simp add: thirdCall_def)
  have 4: "\<forall>d\<in>set [awardEntry, transferEntry].
      (SurveyNumber d = ''SY-001'') = (PropertyNumber d = ''PR-001'')"
    by (simp add: awardEntry_fields transferEntry_fields)
  from append_and_verify_groups [where p = "''PR-001''" and coll = "[awardEntry, neighbourEntry]"
      and coll' = "[awardEntry]" and ev = thirdCall] 1
  have a: "getLastHash thirdCall [awardEntry, neighbourEntry] ''PR-001''
      = getLastHash thirdCall [awardEntry] ''PR-001''" by blast
  from append_and_verify_groups [where landID = "''SY-001''" and coll = "[awardEntry, resurveyEntry]"
      and coll' = "[awardEntry]" and ev = thirdCall and sha = "\<lambda>data. data"] 2
  have b: "verifyLedgerHandler (\<lambda>data. data) thirdCall [awardEntry, resurveyEntry] ''SY-001''
     = verifyLedgerHandler (\<lambda>data. data) thirdCall [awardEntry] ''SY-001''" by blast
  from append_and_verify_groups [where landID = "''SY-001''" and p = "''PR-001''"
      and ev = thirdCall and coll = "[awardEntry, transferEntry]"] 3 4
  have c: "Find thirdCall [awardEntry, transferEntry] SurveyNumber ''SY-001''
     = Find thirdCall [awardEntry, transferEntry] PropertyNumber ''PR-001''"
    by blast
  from a b c show ?thesis by simp
qed

text \<open>
  The claim as stated fails. After the first call, a call for the same property under
  the survey number \<open>SY-002\<close> extends the chain of \<open>PR-001\<close> (its \<open>PrevHash\<close> is the \<open>Hash\<close>
  of the first entry), yet verify fetches no entry for \<open>PR-001\<close>, and for \<open>SY-002\<close> a
  group that lacks the first entry. And a call for another property under the survey
  number \<open>SY-001\<close> starts a chain of its own, yet verify fetches its entry together with
  the first one for \<open>SY-001\<close> and answers \<open>valid = false\<close>.
\<close>

theorem append_and_verify_groups_counterexample:
  "PrevHash resurveyEntry = Hash awardEntry
   \<and> Find thirdCall [awardEntry, resurveyEntry] PropertyNumber ''PR-001''
     = Inr [awardEntry, resurveyEntry]
   \<and> Find thirdCall [awardEntry, resurveyEntry] SurveyNumber ''PR-001'' = Inr []
   \<and> Find thirdCall [awardEntry, resurveyEntry] SurveyNumber ''SY-002'' = Inr [resurveyEntry]
   \<and> PrevHash neighbourEntry = ''genesis''
   \<and> verifyLedgerHandler (\<lambda>data. data) thirdCall [awardEntry, neighbourEntry] ''SY-001''
     = \<lparr> status = 200, body = [(''land_id'', JString ''SY-001''), (''valid'', JBool False)] \<rparr>"
proof -
  have ok: "findErr thirdCall = None" "allErr thirdCall = None" by (simp_all add: thirdCall_def)
  have 1: "sortSlice [awardEntry, neighbourEntry] = [awardEntry, neighbourEntry]"
    by (simp add: sortSlice_sorted awardEntry_fields neighbourEntry_fields)
  have "PrevHash neighbourEntry \<noteq> Hash awardEntry"
    by (simp add: neighbourEntry_fields awardEntry_fields calculateHash_not_genesis [symmetric])
  then have 2: "\<not> verifyLoop (\<lambda>data. data) [awardEntry, neighbourEntry]"
    by (simp add: verifyLoop_Cons2 del: verifyLoop.simps(1))
  from 1 2 have 3: "verifyLedgerHandler (\<lambda>data. data) thirdCall [awardEntry, neighbourEntry] ''SY-001''
     = \<lparr> status = 200, body = [(''land_id'', JString ''SY-001''), (''valid'', JBool False)] \<rparr>"
    by (simp add: verifyLedgerHandler_ok [OF ok] awardEntry_fields neighbourEntry_fields
        del: verifyLoop.simps(1))
  have "Find thirdCall [awardEntry, resurveyEntry] PropertyNumber ''PR-001''
     = Inr [awardEntry, resurveyEntry]
   \<and> Find thirdCall [awardEntry, resurveyEntry] SurveyNumber ''PR-001'' = Inr []
   \<and> Find thirdCall [awardEntry, resurveyEntry] SurveyNumber ''SY-002'' = Inr [resurveyEntry]"
    by (simp add: Find_def ok awardEntry_fields resurveyEntry_fields)
  with 3 show ?thesis
    by (simp add: resurveyEntry_fields neighbourEntry_fields)
qed

text \<open>
  C2 (as amended). The hashed bytes are the fields one after another, with nothing
  between them. Two entries that differ in one string field only (\<open>ID\<close>,
  \<open>SurveyNumber\<close>, \<open>PropertyNumber\<close>, \<open>OwnerID\<close>, \<open>LandType\<close>, \<open>Action\<close>, \<open>Details\<close> or
  \<open>PrevHash\<close>) have different bytes.
\<close>

theorem hashInput_one_field:
  "(hashInput (e\<lparr>ID := v\<rparr>) = hashInput (e\<lparr>ID := w\<rparr>)) = (v = w)
   \<and> (hashInput (e\<lparr>SurveyNumber := v\<rparr>) = hashInput (e\<lparr>SurveyNumber := w\<rparr>)) = (v = w)
   \<and> (hashInput (e\<lparr>PropertyNumber := v\<rparr>) = hashInput (e\<lparr>PropertyNumber := w\<rparr>)) = (v = w)
   \<and> (hashInput (e\<lparr>OwnerID := v\<rparr>) = hashInput (e\<lparr>OwnerID := w\<rparr>)) = (v = w)
   \<and> (hashInput (e\<lparr>LandType := v\<rparr>) = hashInput (e\<lparr>LandType := w\<rparr>)) = (v = w)
   \<and> (hashInput (e\<lparr>Action := v\<rparr>) = hashInput (e\<lparr>Action := w\<rparr>)) = (v = w)
   \<and> (hashInput (e\<lparr>Details := v\<rparr>) = hashInput (e\<lparr>Details := w\<rparr>)) = (v = w)
   \<and> (hashInput (e\<lparr>PrevHash := v\<rparr>) = hashInput (e\<lparr>PrevHash := w\<rparr>)) = (v = w)"
  by (simp add: hashInput_def)

theorem hashInput_one_field_witness:
  "hashInput (awardEntry\<lparr>Details := ''award''\<rparr>) \<noteq> hashInput (awardEntry\<lparr>Details := ''forged''\<rparr>)
   \<and> hashInput (awardEntry\<lparr>OwnerID := ''OWN-001''\<rparr>) \<noteq> hashInput (awardEntry\<lparr>OwnerID := ''OWN-009''\<rparr>)"
  using hashInput_one_field [where e = awardEntry and v = "''award''" and w = "''forged''"]
    hashInput_one_field [where e = awardEntry and v = "''OWN-001''" and w = "''OWN-009''"]
  by simp

text \<open>
  The claim as stated fails: moving the last character of the survey number to the
  front of the property number changes the entry and not the bytes; and two timestamps
  a minute apart give the same bytes, since \<open>string(rune(timestamp))\<close> is U+FFFD for
  both.
\<close>

theorem hashInput_collision_counterexample:
  "awardEntry\<lparr>SurveyNumber := ''SY-00'', PropertyNumber := ''1PR-001''\<rparr> \<noteq> awardEntry
   \<and> hashInput (awardEntry\<lparr>SurveyNumber := ''SY-00'', PropertyNumber := ''1PR-001''\<rparr>)
     = hashInput awardEntry
   \<and> awardEntry\<lparr>Timestamp := 1700000060\<rparr> \<noteq> awardEntry
   \<and> hashInput (awardEntry\<lparr>Timestamp := 1700000060\<rparr>) = hashInput awardEntry"
proof -
  have "SurveyNumber (awardEntry\<lparr>SurveyNumber := ''SY-00'', PropertyNumber := ''1PR-001''\<rparr>)
      \<noteq> SurveyNumber awardEntry"
    by (simp add: awardEntry_fields)
  then have 1: "awardEntry\<lparr>SurveyNumber := ''SY-00'', PropertyNumber := ''1PR-001''\<rparr> \<noteq> awardEntry"
    by metis
  have "Timestamp (awardEntry\<lparr>Timestamp := 1700000060\<rparr>) \<noteq> Timestamp awardEntry"
    by (simp add: awardEntry_fields)
  then have 2: "awardEntry\<lparr>Timestamp := 1700000060\<rparr> \<noteq> awardEntry"
    by metis
  have 3: "hashInput (awardEntry\<lparr>SurveyNumber := ''SY-00'', PropertyNumber := ''1PR-001''\<rparr>)
     = hashInput awardEntry"
    by (simp add: hashInput_def awardEntry_fields)
  have 4: "hashInput (awardEntry\<lparr>Timestamp := 1700000060\<rparr>) = hashInput awardEntry"
    by (simp add: hashInput_def awardEntry_fields rune_def string_of_rune_def)
  from 1 2 3 4 show ?thesis by simp
qed









text \<open>
  C6 (as amended). \<open>addEntryHandler\<close> rejects a request only when its body does not
  decode: the answer is then 400 with \<open>Invalid input\<close> and the collection is unchanged.
  A payload that decodes is not inspected: when \<open>InsertOne\<close> succeeds its entry is added
  to the collection and the answer is 200, whatever the fields hold.
\<close>

theorem addEntry_rejects_only_undecodable:
  "addEntryHandler sha ev coll (Inl err)
     = (coll, \<lparr> status = 400, body = [(''error'', JString ''Invalid input'')] \<rparr>)
   \<and> (insertErr ev = None
      \<longrightarrow> addEntryHandler sha ev coll (Inr payload)
          = (coll @ [newEntry sha ev coll payload],
             \<lparr> status = 200,
               body = [(''status'', JString ''success''),
                       (''entry'', JEntry (newEntry sha ev coll payload))] \<rparr>))"
  by (simp add: addEntryHandler_inserts) (simp add: addEntryHandler_def)

theorem addEntry_rejects_only_undecodable_witness:
  "addEntryHandler (\<lambda>data. data) firstCall [] (Inl (Error ''unexpected end of JSON input''))
     = ([], \<lparr> status = 400, body = [(''error'', JString ''Invalid input'')] \<rparr>)
   \<and> addEntryHandler (\<lambda>data. data) firstCall [] (Inr award)
     = ([awardEntry],
        \<lparr> status = 200,
          body = [(''status'', JString ''success''), (''entry'', JEntry awardEntry)] \<rparr>)"
proof -
  have "insertErr firstCall = None" by (simp add: firstCall_def)
  with addEntry_rejects_only_undecodable
    [of "\<lambda>data. data" firstCall "[]" "Error ''unexpected end of JSON input''" award]
  show ?thesis by (simp add: awardEntry_def)
qed

text \<open>
  The claim as stated fails: a payload whose fields are all empty is answered with 200
  and its entry is in the collection.
\<close>

theorem addEntry_empty_fields_counterexample:
  "status (snd (addEntryHandler (\<lambda>data. data) firstCall [] (Inr blank))) = 200
   \<and> fst (addEntryHandler (\<lambda>data. data) firstCall [] (Inr blank))
     = [newEntry (\<lambda>data. data) firstCall [] blank]
   \<and> SurveyNumber (newEntry (\<lambda>data. data) firstCall [] blank) = []
   \<and> PropertyNumber (newEntry (\<lambda>data. data) firstCall [] blank) = []
   \<and> OwnerID (newEntry (\<lambda>data. data) firstCall [] blank) = []
   \<and> LandType (newEntry (\<lambda>data. data) firstCall [] blank) = []
   \<and> Action (newEntry (\<lambda>data. data) firstCall [] blank) = []
   \<and> Details (newEntry (\<lambda>data. data) firstCall [] blank) = []"
proof -
  have "insertErr firstCall = None" by (simp add: firstCall_def)
  then show ?thesis
    by (simp add: addEntryHandler_inserts newEntry_fields blank_def)
qed

text \<open>
  C7 (as amended). The body of the answer of \<open>verifyLedgerHandler\<close> never has a
  \<open>count\<close>: it is \<open>land_id\<close> and \<open>valid\<close>, or \<open>error\<close>. For a \<open>land_id\<close> that no entry
  carries as its survey number, and no driver error, the answer is 200 with
  \<open>valid = true\<close>.
\<close>

theorem verify_response_no_count:
  "map_of (body (verifyLedgerHandler sha ev coll landID)) ''count'' = None
   \<and> (findErr ev = None \<and> allErr ev = None \<and> (\<forall>d\<in>set coll. SurveyNumber d \<noteq> landID)
      \<longrightarrow> verifyLedgerHandler sha ev coll landID
          = \<lparr> status = 200, body = [(''land_id'', JString landID), (''valid'', JBool True)] \<rparr>)"
proof -
  have count: "map_of (body (verifyLedgerHandler sha ev coll landID)) ''count'' = None"
  proof (cases "findErr ev")
    case None
    show ?thesis
    proof (cases "allErr ev")
      case None
      with \<open>findErr ev = None\<close> show ?thesis by (simp add: verifyLedgerHandler_ok)
    next
      case (Some err)
      with \<open>findErr ev = None\<close> show ?thesis
        by (cases err) (simp add: verifyLedgerHandler_allErr)
    qed
  next
    case (Some err)
    then show ?thesis by (cases err) (simp add: verifyLedgerHandler_findErr)
  qed
  have empty: "verifyLedgerHandler sha ev coll landID
          = \<lparr> status = 200, body = [(''land_id'', JString landID), (''valid'', JBool True)] \<rparr>"
    if "findErr ev = None" "allErr ev = None" "\<forall>d\<in>set coll. SurveyNumber d \<noteq> landID"
  proof -
    from that(3) have "filter (\<lambda>d. SurveyNumber d = landID) coll = []"
      by (simp add: filter_empty_conv)
    with that(1,2) show ?thesis by (simp add: verifyLedgerHandler_ok sortSlice_def)
  qed
  from count empty show ?thesis by blast
qed

theorem verify_response_no_count_witness:
  "map_of (body (verifyLedgerHandler (\<lambda>data. data) firstCall [awardEntry] ''does-not-exist''))
     ''count'' = None
   \<and> verifyLedgerHandler (\<lambda>data. data) firstCall [awardEntry] ''does-not-exist''
     = \<lparr> status = 200,
         body = [(''land_id'', JString ''does-not-exist''), (''valid'', JBool True)] \<rparr>"
proof -
  have "findErr firstCall = None \<and> allErr firstCall = None
      \<and> (\<forall>d\<in>set [awardEntry]. SurveyNumber d \<noteq> ''does-not-exist'')"
    by (simp add: firstCall_def awardEntry_fields)
  with verify_response_no_count [of "\<lambda>data. data" firstCall "[awardEntry]" "''does-not-exist''"]
  show ?thesis by blast
qed

text \<open>
  The claim as stated fails: the answer for an unknown key on the empty collection has
  no \<open>count\<close>.
\<close>

theorem verify_response_count_counterexample:
  "verifyLedgerHandler (\<lambda>data. data) firstCall [] ''does-not-exist''
     = \<lparr> status = 200,
         body = [(''land_id'', JString ''does-not-exist''), (''valid'', JBool True)] \<rparr>
   \<and> map_of (body (verifyLedgerHandler (\<lambda>data. data) firstCall [] ''does-not-exist''))
       ''count'' = None"
  by (simp add: verifyLedgerHandler_ok firstCall_def sortSlice_def)

text \<open>
  C8 (as amended). When \<open>InsertOne\<close> fails, the append fails: the answer is 500 with
  the driver's message and the collection is unchanged. When \<open>Find\<close> or \<open>cur.All\<close> fails
  in \<open>getLastHash\<close>, the append does not fail: the tail is taken to be \<open>genesis\<close>, and
  if \<open>InsertOne\<close> succeeds the entry is added with that \<open>PrevHash\<close> and the answer is 200.
\<close>

theorem append_store_errors:
  "(insertErr ev = Some (Error msg)
      \<longrightarrow> addEntryHandler sha ev coll (Inr payload)
          = (coll, \<lparr> status = 500, body = [(''error'', JString msg)] \<rparr>))
   \<and> ((findErr ev \<noteq> None \<or> allErr ev \<noteq> None) \<and> insertErr ev = None
      \<longrightarrow> fst (addEntryHandler sha ev coll (Inr payload)) = coll @ [newEntry sha ev coll payload]
        \<and> PrevHash (newEntry sha ev coll payload) = ''genesis''
        \<and> status (snd (addEntryHandler sha ev coll (Inr payload))) = 200)"
proof -
  have "addEntryHandler sha ev coll (Inr payload)
          = (coll, \<lparr> status = 500, body = [(''error'', JString msg)] \<rparr>)"
    if "insertErr ev = Some (Error msg)"
    using that by (simp add: addEntryHandler_def createEntry_def InsertOne_def Let_def)
  moreover have "fst (addEntryHandler sha ev coll (Inr payload)) = coll @ [newEntry sha ev coll payload]
        \<and> PrevHash (newEntry sha ev coll payload) = ''genesis''
        \<and> status (snd (addEntryHandler sha ev coll (Inr payload))) = 200"
    if "findErr ev \<noteq> None \<or> allErr ev \<noteq> None" "insertErr ev = None"
    using that by (simp add: addEntryHandler_inserts newEntry_fields getLastHash_error)
  ultimately show ?thesis by blast
qed

theorem append_store_errors_witness:
  "addEntryHandler (\<lambda>data. data)
       (secondCall\<lparr>insertErr := Some (Error ''server selection timeout'')\<rparr>) [awardEntry] (Inr transfer)
     = ([awardEntry], \<lparr> status = 500, body = [(''error'', JString ''server selection timeout'')] \<rparr>)
   \<and> PrevHash (newEntry (\<lambda>data. data)
       (secondCall\<lparr>findErr := Some (Error ''server selection timeout'')\<rparr>) [awardEntry] transfer)
     = ''genesis''"
proof -
  let ?down = "secondCall\<lparr>insertErr := Some (Error ''server selection timeout'')\<rparr>"
  let ?blip = "secondCall\<lparr>findErr := Some (Error ''server selection timeout'')\<rparr>"
  have 1: "insertErr ?down = Some (Error ''server selection timeout'')" by simp
  have 2: "(findErr ?blip \<noteq> None \<or> allErr ?blip \<noteq> None) \<and> insertErr ?blip = None"
    by (simp add: secondCall_def)
  from append_store_errors [of ?down "''server selection timeout''" "\<lambda>data. data" "[awardEntry]" transfer] 1
  have a: "addEntryHandler (\<lambda>data. data) ?down [awardEntry] (Inr transfer)
     = ([awardEntry], \<lparr> status = 500, body = [(''error'', JString ''server selection timeout'')] \<rparr>)"
    by blast
  from append_store_errors [of ?blip _ "\<lambda>data. data" "[awardEntry]" transfer] 2
  have b: "PrevHash (newEntry (\<lambda>data. data) ?blip [awardEntry] transfer) = ''genesis''"
    by blast
  from a b show ?thesis by simp
qed

text \<open>
  The claim as stated fails: with one entry of \<open>PR-001\<close> in the collection and a \<open>Find\<close>
  that fails, the second call is answered with 200 and the collection holds two entries
  whose \<open>PrevHash\<close> is \<open>genesis\<close>.
\<close>

theorem append_find_error_counterexample:
  "status (snd (addEntryHandler (\<lambda>data. data)
       (secondCall\<lparr>findErr := Some (Error ''server selection timeout'')\<rparr>) [awardEntry] (Inr transfer)))
     = 200
   \<and> map PrevHash (fst (addEntryHandler (\<lambda>data. data)
       (secondCall\<lparr>findErr := Some (Error ''server selection timeout'')\<rparr>) [awardEntry] (Inr transfer)))
     = [''genesis'', ''genesis'']"
proof -
  let ?blip = "secondCall\<lparr>findErr := Some (Error ''server selection timeout'')\<rparr>"
  have "insertErr ?blip = None" "findErr ?blip \<noteq> None" by (simp_all add: secondCall_def)
  then show ?thesis
    by (simp add: addEntryHandler_inserts newEntry_fields getLastHash_error awardEntry_fields)
qed

text \<open>
  C9 (as amended). Verify is a function of what the store returns. When the entries of
  \<open>landID\<close> have pairwise different timestamps, its answer does not depend on the order
  in which the collection holds them: two collections with the same entries give the
  same answer. Entries of equal \<open>Timestamp\<close> stay in the order the collection has them;
  no field breaks the tie.
\<close>

theorem verify_order_free:
  assumes "mset coll = mset coll'"
    and "distinct (map Timestamp (filter (\<lambda>d. SurveyNumber d = landID) coll))"
  shows "verifyLedgerHandler sha ev coll landID = verifyLedgerHandler sha ev coll' landID"
proof -
  let ?keep = "\<lambda>d. SurveyNumber d = landID"
  from assms(1) have "mset (filter ?keep coll) = mset (filter ?keep coll')"
    by (simp add: mset_filter)
  with assms(2) have "sortSlice (filter ?keep coll) = sortSlice (filter ?keep coll')"
    unfolding sortSlice_def by (intro sort_key_order_free)
  then show ?thesis
    by (intro verifyLedgerHandler_cong) simp
qed

theorem verify_order_free_witness:
  "verifyLedgerHandler (\<lambda>data. data) firstCall [awardEntry, transferEntry] ''SY-001''
     = verifyLedgerHandler (\<lambda>data. data) firstCall [transferEntry, awardEntry] ''SY-001''"
proof -
  have "mset [awardEntry, transferEntry] = mset [transferEntry, awardEntry]" by simp
  moreover have "distinct (map Timestamp
      (filter (\<lambda>d. SurveyNumber d = ''SY-001'') [awardEntry, transferEntry]))"
    by (simp add: awardEntry_fields transferEntry_fields)
  ultimately show ?thesis by (rule verify_order_free)
qed

text \<open>
  The claim as stated fails: the first call and a second call in the same second leave
  two entries of equal \<open>Timestamp\<close>; held in the order of the calls they verify, held
  in the other order they do not.
\<close>

theorem verify_order_counterexample:
  "mset [awardEntry, hastyEntry] = mset [hastyEntry, awardEntry]
   \<and> verifyLedgerHandler (\<lambda>data. data) firstCall [awardEntry, hastyEntry] ''SY-001''
     = \<lparr> status = 200, body = [(''land_id'', JString ''SY-001''), (''valid'', JBool True)] \<rparr>
   \<and> verifyLedgerHandler (\<lambda>data. data) firstCall [hastyEntry, awardEntry] ''SY-001''
     = \<lparr> status = 200, body = [(''land_id'', JString ''SY-001''), (''valid'', JBool False)] \<rparr>"
proof -
  have ok: "findErr firstCall = None" "allErr firstCall = None" by (simp_all add: firstCall_def)
  have 1: "sortSlice [awardEntry, hastyEntry] = [awardEntry, hastyEntry]"
    "sortSlice [hastyEntry, awardEntry] = [hastyEntry, awardEntry]"
    by (simp_all add: sortSlice_sorted awardEntry_fields hastyEntry_fields)
  have 2: "verifyLoop (\<lambda>data. data) [awardEntry, hastyEntry]"
    by (simp add: verifyLoop_Cons2 hastyEntry_PrevHash hastyEntry_fields(3) [symmetric]
        del: verifyLoop.simps(1))
  have "PrevHash awardEntry \<noteq> Hash hastyEntry"
    by (simp add: awardEntry_fields hastyEntry_fields calculateHash_not_genesis [symmetric])
  then have 3: "\<not> verifyLoop (\<lambda>data. data) [hastyEntry, awardEntry]"
    by (simp add: verifyLoop_Cons2 del: verifyLoop.simps(1))
  from 1 2 3 show ?thesis
    by (simp add: verifyLedgerHandler_ok [OF ok] awardEntry_fields hastyEntry_fields)
qed



end
